theory Spec2Isabelle
  imports Main
begin

section \<open>Pointers and the counting primitives\<close>

text \<open>
  A raw pointer \<open>T*\<close> is either \<open>nullptr\<close> (\<open>None\<close>) or the address of a counted object.
  Addresses stand for object identities: two pointers are equal exactly when they designate
  the same object.
\<close>

type_synonym addr = nat
type_synonym pointer = "addr option"

text \<open>
  Both headers include \<open>ref_counted.hpp\<close> and call five free functions on a non-null
  pointer: \<open>intrusive_ptr_add_ref\<close>, \<open>intrusive_ptr_release\<close>,
  \<open>intrusive_ptr_add_weak_ref\<close>, \<open>intrusive_ptr_release_weak\<close> and
  \<open>intrusive_ptr_upgrade_weak\<close> (the only one whose result is used). That header is not
  among the sources, so the handle classes are modelled over an arbitrary implementation of
  the five functions: a record of state transformers over a state \<open>'s\<close> of the counted
  objects.
\<close>

record 's ref_counted =
  intrusive_ptr_add_ref :: "addr \<Rightarrow> 's \<Rightarrow> 's"
  intrusive_ptr_release :: "addr \<Rightarrow> 's \<Rightarrow> 's"
  intrusive_ptr_add_weak_ref :: "addr \<Rightarrow> 's \<Rightarrow> 's"
  intrusive_ptr_release_weak :: "addr \<Rightarrow> 's \<Rightarrow> 's"
  intrusive_ptr_upgrade_weak :: "addr \<Rightarrow> 's \<Rightarrow> bool \<times> 's"

section \<open>The strong handle: \<open>intrusive_ptr.hpp\<close>\<close>

text \<open>
  \<open>class intrusive_ptr\<close> has the single data member \<open>ptr_\<close>. A member function takes the
  handle as \<open>this\<close> and returns the updated handle where the source writes \<open>ptr_\<close>; it
  takes and returns the state of the counted objects where the source calls a primitive.
\<close>

record intrusive_ptr =
  ptr :: pointer  \<comment> \<open>the member \<open>ptr_\<close>\<close>

text \<open>\<open>set_ptr(raw_ptr, add_ref)\<close>: stores the pointer, then acquires it when it is
  non-null and \<open>add_ref\<close> holds.\<close>

definition set_ptr :: "'s ref_counted \<Rightarrow> pointer \<Rightarrow> bool \<Rightarrow> 's \<Rightarrow> intrusive_ptr \<times> 's" where
  "set_ptr P raw_ptr add_ref s =
     (\<lparr>ptr = raw_ptr\<rparr>,
      if raw_ptr \<noteq> None \<and> add_ref then intrusive_ptr_add_ref P (the raw_ptr) s else s)"

text \<open>\<open>constexpr intrusive_ptr()\<close>.\<close>

definition intrusive_ptr_default :: intrusive_ptr where
  "intrusive_ptr_default = \<lparr>ptr = None\<rparr>"

text \<open>\<open>intrusive_ptr(pointer raw_ptr, bool add_ref = true)\<close>. The constructor is not
  \<open>explicit\<close>: it is also the implicit conversion from a raw pointer, with
  \<open>add_ref = true\<close>.\<close>

definition intrusive_ptr_raw :: "'s ref_counted \<Rightarrow> pointer \<Rightarrow> bool \<Rightarrow> 's \<Rightarrow> intrusive_ptr \<times> 's" where
  "intrusive_ptr_raw P raw_ptr add_ref s = set_ptr P raw_ptr add_ref s"

definition get :: "intrusive_ptr \<Rightarrow> pointer" where
  "get this = ptr this"

text \<open>\<open>detach()\<close> returns the stored pointer and the handle after the call.\<close>

definition detach :: "intrusive_ptr \<Rightarrow> pointer \<times> intrusive_ptr" where
  "detach this =
     (let result = ptr this
      in (result, if result \<noteq> None then this\<lparr>ptr := None\<rparr> else this))"

definition release :: "intrusive_ptr \<Rightarrow> pointer \<times> intrusive_ptr" where
  "release this = detach this"

text \<open>\<open>intrusive_ptr(intrusive_ptr &&other) : ptr_(other.detach())\<close> returns the new
  handle and the moved-from one.\<close>

definition intrusive_ptr_move :: "intrusive_ptr \<Rightarrow> intrusive_ptr \<times> intrusive_ptr" where
  "intrusive_ptr_move other = (let (p, other') = detach other in (\<lparr>ptr = p\<rparr>, other'))"

text \<open>\<open>intrusive_ptr(const intrusive_ptr &other)\<close>.\<close>

definition intrusive_ptr_copy :: "'s ref_counted \<Rightarrow> intrusive_ptr \<Rightarrow> 's \<Rightarrow> intrusive_ptr \<times> 's" where
  "intrusive_ptr_copy P other s = set_ptr P (get other) True s"

text \<open>\<open>~intrusive_ptr()\<close>.\<close>

definition intrusive_ptr_dtor :: "'s ref_counted \<Rightarrow> intrusive_ptr \<Rightarrow> 's \<Rightarrow> 's" where
  "intrusive_ptr_dtor P this s =
     (if ptr this \<noteq> None then intrusive_ptr_release P (the (ptr this)) s else s)"

text \<open>\<open>reset(new_value, add_ref)\<close>: remembers the old pointer, sets the new one, then
  releases the old one.\<close>

definition reset :: "'s ref_counted \<Rightarrow> pointer \<Rightarrow> bool \<Rightarrow> intrusive_ptr \<Rightarrow> 's \<Rightarrow> intrusive_ptr \<times> 's" where
  "reset P new_value add_ref this s =
     (let old = ptr this;
          (this', s1) = set_ptr P new_value add_ref s
      in (this', if old \<noteq> None then intrusive_ptr_release P (the old) s1 else s1))"

text \<open>\<open>operator=(pointer ptr)\<close>.\<close>

definition assign_raw :: "'s ref_counted \<Rightarrow> pointer \<Rightarrow> intrusive_ptr \<Rightarrow> 's \<Rightarrow> intrusive_ptr \<times> 's" where
  "assign_raw P p this s = reset P p True this s"

text \<open>\<open>swap(other)\<close> exchanges the two stored pointers; it returns \<open>this\<close> and \<open>other\<close>
  after the call.\<close>

definition swap :: "intrusive_ptr \<Rightarrow> intrusive_ptr \<Rightarrow> intrusive_ptr \<times> intrusive_ptr" where
  "swap this other = (this\<lparr>ptr := ptr other\<rparr>, other\<lparr>ptr := ptr this\<rparr>)"

text \<open>\<open>operator=(intrusive_ptr other)\<close>: the parameter is an object of its own, passed by
  value; the body swaps it with \<open>this\<close>, and the parameter (now holding the old pointer)
  is destroyed when the call ends.\<close>

definition operator_assign :: "'s ref_counted \<Rightarrow> intrusive_ptr \<Rightarrow> intrusive_ptr \<Rightarrow> 's \<Rightarrow> intrusive_ptr \<times> 's" where
  "operator_assign P other this s =
     (let (this', other') = swap this other
      in (this', intrusive_ptr_dtor P other' s))"

text \<open>The expression \<open>h = src\<close> for an lvalue \<open>src\<close>: the parameter of \<open>operator=\<close> is
  copy-constructed from \<open>src\<close> (which is only read), then the operator runs. \<open>src\<close> may be
  \<open>h\<close> itself.\<close>

definition copy_assign :: "'s ref_counted \<Rightarrow> intrusive_ptr \<Rightarrow> intrusive_ptr \<Rightarrow> 's \<Rightarrow> intrusive_ptr \<times> 's" where
  "copy_assign P src this s =
     (let (other, s1) = intrusive_ptr_copy P src s
      in operator_assign P other this s1)"

text \<open>\<open>explicit operator bool()\<close>.\<close>

definition operator_bool :: "intrusive_ptr \<Rightarrow> bool" where
  "operator_bool this = (ptr this \<noteq> None)"

text \<open>
  \<open>dynamic_cast<C *>(p)\<close> depends on the runtime type of the object: \<open>is_C a\<close> tells
  whether the object at \<open>a\<close> is a \<open>C\<close>. \<open>static_cast<C *>(p)\<close> to a base class designates
  the same object.
\<close>

definition dynamic_cast :: "(addr \<Rightarrow> bool) \<Rightarrow> pointer \<Rightarrow> pointer" where
  "dynamic_cast is_C p = (case p of None \<Rightarrow> None | Some a \<Rightarrow> if is_C a then Some a else None)"

definition static_cast :: "pointer \<Rightarrow> pointer" where
  "static_cast p = p"

text \<open>\<open>down_pointer_cast\<close> and \<open>up_pointer_cast\<close> return a raw pointer where an
  \<open>intrusive_ptr<C>\<close> is expected: the result is built by the converting constructor, with
  its default \<open>add_ref = true\<close>.\<close>

definition down_pointer_cast :: "'s ref_counted \<Rightarrow> (addr \<Rightarrow> bool) \<Rightarrow> intrusive_ptr \<Rightarrow> 's \<Rightarrow> intrusive_ptr \<times> 's" where
  "down_pointer_cast P is_C this s =
     intrusive_ptr_raw P (if ptr this \<noteq> None then dynamic_cast is_C (get this) else None) True s"

definition up_pointer_cast :: "'s ref_counted \<Rightarrow> intrusive_ptr \<Rightarrow> 's \<Rightarrow> intrusive_ptr \<times> 's" where
  "up_pointer_cast P this s =
     intrusive_ptr_raw P (if ptr this \<noteq> None then static_cast (get this) else None) True s"

text \<open>The comparison operators: with \<open>nullptr\<close>, with another handle, with a raw pointer.\<close>

definition eq_nullptr :: "intrusive_ptr \<Rightarrow> bool" where
  "eq_nullptr x = (\<not> operator_bool x)"

definition ne_nullptr :: "intrusive_ptr \<Rightarrow> bool" where
  "ne_nullptr x = operator_bool x"

definition eq_ptr :: "intrusive_ptr \<Rightarrow> intrusive_ptr \<Rightarrow> bool" where
  "eq_ptr a b = (get a = get b)"

definition ne_ptr :: "intrusive_ptr \<Rightarrow> intrusive_ptr \<Rightarrow> bool" where
  "ne_ptr a b = (\<not> eq_ptr a b)"

definition eq_raw :: "intrusive_ptr \<Rightarrow> pointer \<Rightarrow> bool" where
  "eq_raw a b = (get a = b)"

definition ne_raw :: "intrusive_ptr \<Rightarrow> pointer \<Rightarrow> bool" where
  "ne_raw a b = (get a \<noteq> b)"

section \<open>The weak handle: \<open>weak_intrusive_ptr.hpp\<close>\<close>

record weak_intrusive_ptr =
  wptr :: pointer  \<comment> \<open>the member \<open>ptr_\<close>\<close>

definition weak_set_ptr :: "'s ref_counted \<Rightarrow> pointer \<Rightarrow> bool \<Rightarrow> 's \<Rightarrow> weak_intrusive_ptr \<times> 's" where
  "weak_set_ptr P raw_ptr add_ref s =
     (\<lparr>wptr = raw_ptr\<rparr>,
      if raw_ptr \<noteq> None \<and> add_ref then intrusive_ptr_add_weak_ref P (the raw_ptr) s else s)"

definition weak_intrusive_ptr_default :: weak_intrusive_ptr where
  "weak_intrusive_ptr_default = \<lparr>wptr = None\<rparr>"

definition weak_intrusive_ptr_raw :: "'s ref_counted \<Rightarrow> pointer \<Rightarrow> bool \<Rightarrow> 's \<Rightarrow> weak_intrusive_ptr \<times> 's" where
  "weak_intrusive_ptr_raw P raw_ptr add_ref s = weak_set_ptr P raw_ptr add_ref s"

definition weak_get :: "weak_intrusive_ptr \<Rightarrow> pointer" where
  "weak_get this = wptr this"

definition weak_detach :: "weak_intrusive_ptr \<Rightarrow> pointer \<times> weak_intrusive_ptr" where
  "weak_detach this =
     (let result = wptr this
      in (result, if result \<noteq> None then this\<lparr>wptr := None\<rparr> else this))"

definition weak_release :: "weak_intrusive_ptr \<Rightarrow> pointer \<times> weak_intrusive_ptr" where
  "weak_release this = weak_detach this"

definition weak_intrusive_ptr_move :: "weak_intrusive_ptr \<Rightarrow> weak_intrusive_ptr \<times> weak_intrusive_ptr" where
  "weak_intrusive_ptr_move other =
     (let (p, other') = weak_detach other in (\<lparr>wptr = p\<rparr>, other'))"

definition weak_intrusive_ptr_copy :: "'s ref_counted \<Rightarrow> weak_intrusive_ptr \<Rightarrow> 's \<Rightarrow> weak_intrusive_ptr \<times> 's" where
  "weak_intrusive_ptr_copy P other s = weak_set_ptr P (weak_get other) True s"

text \<open>\<open>~weak_intrusive_ptr()\<close>.\<close>

definition weak_intrusive_ptr_dtor :: "'s ref_counted \<Rightarrow> weak_intrusive_ptr \<Rightarrow> 's \<Rightarrow> 's" where
  "weak_intrusive_ptr_dtor P this s =
     (if wptr this \<noteq> None then intrusive_ptr_release_weak P (the (wptr this)) s else s)"

definition weak_swap :: "weak_intrusive_ptr \<Rightarrow> weak_intrusive_ptr \<Rightarrow> weak_intrusive_ptr \<times> weak_intrusive_ptr" where
  "weak_swap this other = (this\<lparr>wptr := wptr other\<rparr>, other\<lparr>wptr := wptr this\<rparr>)"

definition weak_reset :: "'s ref_counted \<Rightarrow> pointer \<Rightarrow> bool \<Rightarrow> weak_intrusive_ptr \<Rightarrow> 's \<Rightarrow> weak_intrusive_ptr \<times> 's" where
  "weak_reset P new_value add_ref this s =
     (let old = wptr this;
          (this', s1) = weak_set_ptr P new_value add_ref s
      in (this', if old \<noteq> None then intrusive_ptr_release_weak P (the old) s1 else s1))"

definition weak_operator_bool :: "weak_intrusive_ptr \<Rightarrow> bool" where
  "weak_operator_bool this = (wptr this \<noteq> None)"

definition weak_operator_not :: "weak_intrusive_ptr \<Rightarrow> bool" where
  "weak_operator_not this = (wptr this = None)"

definition weak_eq :: "weak_intrusive_ptr \<Rightarrow> weak_intrusive_ptr \<Rightarrow> bool" where
  "weak_eq lhs rhs = (weak_get lhs = weak_get rhs)"

definition weak_ne :: "weak_intrusive_ptr \<Rightarrow> weak_intrusive_ptr \<Rightarrow> bool" where
  "weak_ne lhs rhs = (\<not> weak_eq lhs rhs)"

text \<open>
  \<open>lock()\<close>: \<open>if (!ptr_ || !intrusive_ptr_upgrade_weak(ptr_)) return nullptr;
  return {ptr_, false};\<close>. The \<open>||\<close> short-circuits, so the primitive is called only on a
  non-null pointer. \<open>return nullptr\<close> builds the result from a null raw pointer by the
  converting constructor; \<open>{ptr_, false}\<close> calls the same constructor with
  \<open>add_ref = false\<close>.
\<close>

definition lock :: "'s ref_counted \<Rightarrow> weak_intrusive_ptr \<Rightarrow> 's \<Rightarrow> intrusive_ptr \<times> 's" where
  "lock P this s =
     (if wptr this = None then intrusive_ptr_raw P None True s
      else let (ok, s1) = intrusive_ptr_upgrade_weak P (the (wptr this)) s
           in if \<not> ok then intrusive_ptr_raw P None True s1
              else intrusive_ptr_raw P (wptr this) False s1)"

text \<open>\<open>get_locked()\<close>: the same test, returning the raw pointer.\<close>

definition get_locked :: "'s ref_counted \<Rightarrow> weak_intrusive_ptr \<Rightarrow> 's \<Rightarrow> pointer \<times> 's" where
  "get_locked P this s =
     (if wptr this = None then (None, s)
      else let (ok, s1) = intrusive_ptr_upgrade_weak P (the (wptr this)) s
           in if \<not> ok then (None, s1) else (wptr this, s1))"

section \<open>The counted objects\<close>

text \<open>
  Modelled from the spec: \<open>ref_counted.hpp\<close>, which implements the five primitives, is not
  among the sources. The definitions below follow the contracts of the specification
  (sections 3 and 4.3). Every counted object has a strong count and a weak count; the
  state also records how often each object's finalizer has run and how often its storage
  has been reclaimed. The counts are integers, so that a decrement is always a decrement.
\<close>

record heap =
  strong_count :: "addr \<Rightarrow> int"
  weak_count :: "addr \<Rightarrow> int"
  finalizer_runs :: "addr \<Rightarrow> nat"
  reclaims :: "addr \<Rightarrow> nat"

text \<open>Modelled from the spec: \<open>add_strong_ref(obj)\<close> increments \<open>strong_count\<close>; no
  precondition on the current value.\<close>

definition add_strong_ref :: "addr \<Rightarrow> heap \<Rightarrow> heap" where
  "add_strong_ref a h = h\<lparr>strong_count := (strong_count h)(a := strong_count h a + 1)\<rparr>"

text \<open>Modelled from the spec: \<open>release_strong_ref(obj)\<close> decrements \<open>strong_count\<close>; if
  the result is 0, runs the object's finalizer.\<close>

definition release_strong_ref :: "addr \<Rightarrow> heap \<Rightarrow> heap" where
  "release_strong_ref a h =
     (let n = strong_count h a - 1;
          h1 = h\<lparr>strong_count := (strong_count h)(a := n)\<rparr>
      in if n = 0 then h1\<lparr>finalizer_runs := (finalizer_runs h1)(a := finalizer_runs h1 a + 1)\<rparr>
         else h1)"

text \<open>Modelled from the spec: \<open>add_weak_ref(obj)\<close> increments \<open>weak_count\<close>.\<close>

definition add_weak_ref :: "addr \<Rightarrow> heap \<Rightarrow> heap" where
  "add_weak_ref a h = h\<lparr>weak_count := (weak_count h)(a := weak_count h a + 1)\<rparr>"

text \<open>Modelled from the spec: \<open>release_weak_ref(obj)\<close> decrements \<open>weak_count\<close>; if the
  result is 0 and the object has already been finalized, reclaims storage.\<close>

definition release_weak_ref :: "addr \<Rightarrow> heap \<Rightarrow> heap" where
  "release_weak_ref a h =
     (let n = weak_count h a - 1;
          h1 = h\<lparr>weak_count := (weak_count h)(a := n)\<rparr>
      in if n = 0 \<and> 0 < finalizer_runs h1 a
         then h1\<lparr>reclaims := (reclaims h1)(a := reclaims h1 a + 1)\<rparr>
         else h1)"

text \<open>Modelled from the spec: \<open>try_upgrade_weak(obj)\<close> increments \<open>strong_count\<close>
  conditioned on \<open>strong_count > 0\<close>; if the strong count had already reached zero the
  attempt fails without having adopted a reference.\<close>

definition try_upgrade_weak :: "addr \<Rightarrow> heap \<Rightarrow> bool \<times> heap" where
  "try_upgrade_weak a h =
     (if 0 < strong_count h a then (True, add_strong_ref a h) else (False, h))"

text \<open>Modelled from the spec: the five primitives of section 4.3, as the implementation
  the handles call.\<close>

definition counted :: "heap ref_counted" where
  "counted =
     \<lparr>intrusive_ptr_add_ref = add_strong_ref,
      intrusive_ptr_release = release_strong_ref,
      intrusive_ptr_add_weak_ref = add_weak_ref,
      intrusive_ptr_release_weak = release_weak_ref,
      intrusive_ptr_upgrade_weak = try_upgrade_weak\<rparr>"

text \<open>Modelled from the spec: an object as the external factory creates it, with
  \<open>strong_count = 1\<close> and \<open>weak_count = 0\<close>, in a state where nothing else exists.\<close>

definition created :: "addr \<Rightarrow> heap" where
  "created a =
     \<lparr>strong_count = (\<lambda>_. 0)(a := 1), weak_count = (\<lambda>_. 0),
      finalizer_runs = (\<lambda>_. 0), reclaims = (\<lambda>_. 0)\<rparr>"

section \<open>Properties of the handles\<close>

lemmas strong_defs = set_ptr_def intrusive_ptr_raw_def get_def detach_def release_def
  intrusive_ptr_move_def intrusive_ptr_copy_def intrusive_ptr_dtor_def reset_def assign_raw_def
  swap_def operator_assign_def copy_assign_def operator_bool_def dynamic_cast_def static_cast_def
  down_pointer_cast_def up_pointer_cast_def eq_nullptr_def ne_nullptr_def eq_ptr_def ne_ptr_def
  eq_raw_def ne_raw_def

lemmas weak_defs = weak_set_ptr_def weak_intrusive_ptr_raw_def weak_get_def weak_detach_def
  weak_release_def weak_intrusive_ptr_move_def weak_intrusive_ptr_copy_def
  weak_intrusive_ptr_dtor_def weak_swap_def weak_reset_def weak_operator_bool_def
  weak_operator_not_def weak_eq_def weak_ne_def lock_def get_locked_def

lemmas counted_defs = counted_def add_strong_ref_def release_strong_ref_def add_weak_ref_def
  release_weak_ref_def try_upgrade_weak_def

subsection \<open>What \<open>set_ptr\<close> and the destructor call\<close>

lemma set_ptr_null: "set_ptr P None add_ref s = (\<lparr>ptr = None\<rparr>, s)"
  by (simp add: set_ptr_def)

lemma set_ptr_adopt: "set_ptr P raw_ptr False s = (\<lparr>ptr = raw_ptr\<rparr>, s)"
  by (simp add: set_ptr_def)

lemma set_ptr_acquire:
  "set_ptr P (Some a) True s = (\<lparr>ptr = Some a\<rparr>, intrusive_ptr_add_ref P a s)"
  by (simp add: set_ptr_def)

lemma dtor_null: "ptr this = None \<Longrightarrow> intrusive_ptr_dtor P this s = s"
  by (simp add: intrusive_ptr_dtor_def)

lemma dtor_release:
  "ptr this = Some a \<Longrightarrow> intrusive_ptr_dtor P this s = intrusive_ptr_release P a s"
  by (simp add: intrusive_ptr_dtor_def)

lemma handle_eq: "ptr this = p \<Longrightarrow> \<lparr>ptr = p\<rparr> = this"
  by auto

lemma weak_set_ptr_null: "weak_set_ptr P None add_ref s = (\<lparr>wptr = None\<rparr>, s)"
  by (simp add: weak_set_ptr_def)

lemma weak_dtor_null: "wptr this = None \<Longrightarrow> weak_intrusive_ptr_dtor P this s = s"
  by (simp add: weak_intrusive_ptr_dtor_def)

text \<open>On the counted objects of the specification, a release undoes an acquisition of an
  object whose strong count was not zero: the decrement does not reach zero, so the
  finalizer does not run.\<close>

lemma add_strong_ref_count:
  "strong_count (add_strong_ref a h) = (strong_count h)(a := strong_count h a + 1)"
  by (simp add: add_strong_ref_def)

lemma release_after_add:
  "strong_count h a \<noteq> 0 \<Longrightarrow> release_strong_ref a (add_strong_ref a h) = h"
  by (simp add: release_strong_ref_def add_strong_ref_def)

lemma counted_simps:
  "intrusive_ptr_add_ref counted = add_strong_ref"
  "intrusive_ptr_release counted = release_strong_ref"
  "intrusive_ptr_add_weak_ref counted = add_weak_ref"
  "intrusive_ptr_release_weak counted = release_weak_ref"
  "intrusive_ptr_upgrade_weak counted = try_upgrade_weak"
  by (simp_all add: counted_def)

subsection \<open>\<open>lock()\<close>\<close>

text \<open>
  Claim C2. For every weak handle and every implementation of the primitives, \<open>lock()\<close>
  \<^item> returns a null strong handle at once, the state untouched, when the stored pointer is
    null;
  \<^item> returns a null strong handle when the upgrade primitive fails, and the state is the one
    the failed primitive left: nothing is acquired;
  \<^item> returns a strong handle over the same pointer when the upgrade succeeds, and the state
    is the one the primitive left: the constructor is called with \<open>add_ref = false\<close> and
    adds no increment of its own.
\<close>

theorem lock_outcomes:
  "(wptr this = None \<longrightarrow> lock P this s = (\<lparr>ptr = None\<rparr>, s)) \<and>
   (wptr this = Some a \<and> \<not> fst (intrusive_ptr_upgrade_weak P a s) \<longrightarrow>
      lock P this s = (\<lparr>ptr = None\<rparr>, snd (intrusive_ptr_upgrade_weak P a s))) \<and>
   (wptr this = Some a \<and> fst (intrusive_ptr_upgrade_weak P a s) \<longrightarrow>
      lock P this s = (\<lparr>ptr = Some a\<rparr>, snd (intrusive_ptr_upgrade_weak P a s)))"
proof (intro conjI impI)
  assume "wptr this = None"
  then show "lock P this s = (\<lparr>ptr = None\<rparr>, s)"
    by (simp add: lock_def intrusive_ptr_raw_def set_ptr_null)
next
  assume "wptr this = Some a \<and> \<not> fst (intrusive_ptr_upgrade_weak P a s)"
  then show "lock P this s = (\<lparr>ptr = None\<rparr>, snd (intrusive_ptr_upgrade_weak P a s))"
    by (simp add: lock_def intrusive_ptr_raw_def set_ptr_null case_prod_beta)
next
  assume "wptr this = Some a \<and> fst (intrusive_ptr_upgrade_weak P a s)"
  then show "lock P this s = (\<lparr>ptr = Some a\<rparr>, snd (intrusive_ptr_upgrade_weak P a s))"
    by (simp add: lock_def intrusive_ptr_raw_def set_ptr_adopt case_prod_beta)
qed

text \<open>The three cases on the counted objects of the specification: a null weak handle; an
  object whose strong count has reached zero (nothing changes); a live object (its strong
  count goes up by the one increment of the upgrade).\<close>

theorem lock_outcomes_witness:
  "lock counted \<lparr>wptr = None\<rparr> (created 0) = (\<lparr>ptr = None\<rparr>, created 0) \<and>
   lock counted \<lparr>wptr = Some 0\<rparr> (release_strong_ref 0 (created 0)) =
     (\<lparr>ptr = None\<rparr>, release_strong_ref 0 (created 0)) \<and>
   lock counted \<lparr>wptr = Some 0\<rparr> (created 0) = (\<lparr>ptr = Some 0\<rparr>, add_strong_ref 0 (created 0))"
  using lock_outcomes [of "\<lparr>wptr = None\<rparr>" counted "created 0" 0]
    lock_outcomes [of "\<lparr>wptr = Some 0\<rparr>" counted "release_strong_ref 0 (created 0)" 0]
    lock_outcomes [of "\<lparr>wptr = Some 0\<rparr>" counted "created 0" 0]
  by (simp add: counted_defs created_def)

subsection \<open>\<open>detach()\<close> and adoption\<close>

text \<open>
  Claim C3. \<open>detach()\<close> returns the stored pointer and leaves the handle null; it calls no
  primitive (it has no access to the counted objects), and destroying the detached handle
  afterwards releases nothing. Constructing a handle over the returned pointer with
  \<open>add_ref = false\<close> gives back the original handle in the original state: no count has
  changed, whatever the primitives do.
\<close>

theorem detach_adopt_roundtrip:
  "detach this = (ptr this, \<lparr>ptr = None\<rparr>) \<and>
   intrusive_ptr_dtor P (snd (detach this)) s = s \<and>
   intrusive_ptr_raw P (fst (detach this)) False s = (this, s) \<and>
   strong_count (snd (intrusive_ptr_raw counted (fst (detach this)) False h)) = strong_count h"
proof -
  have d: "detach this = (ptr this, \<lparr>ptr = None\<rparr>)"
    by (simp add: detach_def Let_def)
  have adopt: "intrusive_ptr_raw Q (ptr this) False s' = (this, s')" for Q :: "'b ref_counted" and s'
    by (simp add: intrusive_ptr_raw_def set_ptr_adopt)
  show ?thesis
    by (simp add: d adopt dtor_null)
qed

subsection \<open>\<open>reset\<close>\<close>

text \<open>
  Claim C4. \<open>reset(new_value, add_ref)\<close> first does what \<open>set_ptr\<close> does (the new target is
  acquired when it is non-null and \<open>add_ref\<close> holds), and then, in the state so reached, what
  the destructor of the old handle value does (the old target is released when non-null).
  Consequently, on the counted objects of the specification, resetting a handle to its own
  target with \<open>add_ref = true\<close> goes through a state where the strong count is one higher
  and ends in the state it started from: the finalizer has not run. A non-null strong handle
  holds a reference, so the count of its target is positive.
\<close>

theorem reset_acquires_then_releases:
  "reset P new_value add_ref this s =
     (let (this', s1) = set_ptr P new_value add_ref s in (this', intrusive_ptr_dtor P this s1)) \<and>
   (ptr this = Some a \<and> 0 < strong_count h a \<longrightarrow>
      strong_count (snd (set_ptr counted (Some a) True h)) a = strong_count h a + 1 \<and>
      reset counted (Some a) True this h = (this, h))"
proof (intro conjI impI)
  show "reset P new_value add_ref this s =
      (let (this', s1) = set_ptr P new_value add_ref s in (this', intrusive_ptr_dtor P this s1))"
    by (simp add: reset_def intrusive_ptr_dtor_def Let_def split: prod.splits)
next
  show "strong_count (snd (set_ptr counted (Some a) True h)) a = strong_count h a + 1"
    by (simp add: set_ptr_acquire counted_simps add_strong_ref_count)
next
  assume live: "ptr this = Some a \<and> 0 < strong_count h a"
  then have restored: "release_strong_ref a (add_strong_ref a h) = h"
    by (simp add: release_after_add)
  from live have "reset counted (Some a) True this h =
      (\<lparr>ptr = Some a\<rparr>, release_strong_ref a (add_strong_ref a h))"
    by (simp add: reset_def set_ptr_acquire counted_simps)
  with live restored show "reset counted (Some a) True this h = (this, h)"
    by (simp add: handle_eq)
qed

theorem reset_acquires_then_releases_witness:
  "0 < strong_count (created 0) 0 \<and>
   strong_count (snd (set_ptr counted (Some 0) True (created 0))) 0 = 2 \<and>
   reset counted (Some 0) True \<lparr>ptr = Some 0\<rparr> (created 0) = (\<lparr>ptr = Some 0\<rparr>, created 0) \<and>
   finalizer_runs (snd (reset counted (Some 0) True \<lparr>ptr = Some 0\<rparr> (created 0))) 0 = 0"
  using reset_acquires_then_releases
    [of counted "Some 0" True "\<lparr>ptr = Some 0\<rparr>" "created 0" 0 "created 0"]
  by (simp add: created_def set_ptr_def intrusive_ptr_dtor_def counted_defs)

subsection \<open>The scenario of the specification\<close>

text \<open>
  Claim C5. An object \<open>a\<close> is created with \<open>strong_count = 1\<close>, no weak reference, not
  finalized and not reclaimed. Handle \<open>A\<close> adopts it (\<open>add_ref = false\<close>, the state is
  untouched). Copying \<open>A\<close> into \<open>B\<close> makes the strong count 2. Creating the weak handle \<open>W\<close>
  makes the weak count 1. Destroying \<open>A\<close> makes the strong count 1 and the finalizer has not
  run. Destroying \<open>B\<close> makes the strong count 0 and the finalizer has run once; the storage
  is not yet reclaimed. \<open>W.lock()\<close> returns a null handle and changes nothing. Destroying
  \<open>W\<close> makes the weak count 0 and the storage is reclaimed once; the finalizer has still run
  once. The counts and effects are those of the primitives as the specification states them.
\<close>

theorem scenario_counts:
  assumes "strong_count h a = 1" and "weak_count h a = 0"
    and "finalizer_runs h a = 0" and "reclaims h a = 0"
  shows
   "let (A, h0) = intrusive_ptr_raw counted (Some a) False h;
        (B, h1) = intrusive_ptr_copy counted A h0;
        (W, h2) = weak_intrusive_ptr_raw counted (get B) True h1;
        h3 = intrusive_ptr_dtor counted A h2;
        h4 = intrusive_ptr_dtor counted B h3;
        (L, h5) = lock counted W h4;
        h6 = weak_intrusive_ptr_dtor counted W h5
    in h0 = h \<and>
       strong_count h1 a = 2 \<and>
       weak_count h2 a = 1 \<and>
       strong_count h3 a = 1 \<and> finalizer_runs h3 a = 0 \<and>
       strong_count h4 a = 0 \<and> finalizer_runs h4 a = 1 \<and> reclaims h4 a = 0 \<and>
       L = \<lparr>ptr = None\<rparr> \<and> h5 = h4 \<and>
       weak_count h6 a = 0 \<and> reclaims h6 a = 1 \<and> finalizer_runs h6 a = 1 \<and>
       strong_count h6 a = 0"
  using assms by (simp add: strong_defs weak_defs counted_defs Let_def)

theorem scenario_counts_witness:
  "strong_count (created 0) 0 = 1 \<and> weak_count (created 0) 0 = 0 \<and>
   finalizer_runs (created 0) 0 = 0 \<and> reclaims (created 0) 0 = 0 \<and>
   (let (A, h0) = intrusive_ptr_raw counted (Some 0) False (created 0);
        (B, h1) = intrusive_ptr_copy counted A h0;
        (W, h2) = weak_intrusive_ptr_raw counted (get B) True h1;
        h3 = intrusive_ptr_dtor counted A h2;
        h4 = intrusive_ptr_dtor counted B h3;
        (L, h5) = lock counted W h4;
        h6 = weak_intrusive_ptr_dtor counted W h5
    in h0 = created 0 \<and>
       strong_count h1 0 = 2 \<and>
       weak_count h2 0 = 1 \<and>
       strong_count h3 0 = 1 \<and> finalizer_runs h3 0 = 0 \<and>
       strong_count h4 0 = 0 \<and> finalizer_runs h4 0 = 1 \<and> reclaims h4 0 = 0 \<and>
       L = \<lparr>ptr = None\<rparr> \<and> h5 = h4 \<and>
       weak_count h6 0 = 0 \<and> reclaims h6 0 = 1 \<and> finalizer_runs h6 0 = 1 \<and>
       strong_count h6 0 = 0)"
proof -
  have pre: "strong_count (created 0) 0 = 1" "weak_count (created 0) 0 = 0"
    "finalizer_runs (created 0) 0 = 0" "reclaims (created 0) 0 = 0"
    by (simp_all add: created_def)
  show ?thesis
    using pre scenario_counts [OF pre] by simp
qed

subsection \<open>Casts\<close>

text \<open>
  Claim C6 says that an upcast changes no count. It does not hold as stated: the strong
  count of the one object of \<open>created 0\<close> is 1, and upcasting a handle to it gives
  a state in which the count is 2: the result of \<open>up_pointer_cast\<close> is built from a raw
  pointer by the converting constructor, whose \<open>add_ref\<close> defaults to \<open>true\<close>.
\<close>

theorem up_pointer_cast_count_counterexample:
  "strong_count (created 0) 0 = 1 \<and>
   strong_count (snd (up_pointer_cast counted \<lparr>ptr = Some 0\<rparr> (created 0))) 0 = 2"
  by (simp add: strong_defs counted_defs created_def)

text \<open>
  Claim C6, amended. For every non-null strong handle, the upcast never fails: it yields a
  handle over the same pointer, and it calls \<open>intrusive_ptr_add_ref\<close> on that pointer
  exactly once and nothing else. With the counting primitives of the specification the
  strong count of the object goes up by one and no other count changes; the new handle
  holds a reference of its own, and destroying it on a live object restores the state.
\<close>

theorem up_pointer_cast_acquires:
  assumes "ptr this = Some a"
  shows "up_pointer_cast P this s = (\<lparr>ptr = Some a\<rparr>, intrusive_ptr_add_ref P a s) \<and>
         strong_count (snd (up_pointer_cast counted this h)) =
           (strong_count h)(a := strong_count h a + 1) \<and>
         (0 < strong_count h a \<longrightarrow>
            intrusive_ptr_dtor counted (fst (up_pointer_cast counted this h))
              (snd (up_pointer_cast counted this h)) = h)"
proof -
  have cast: "up_pointer_cast Q this s' = (\<lparr>ptr = Some a\<rparr>, intrusive_ptr_add_ref Q a s')"
    for Q :: "'b ref_counted" and s'
    using assms
    by (simp add: up_pointer_cast_def static_cast_def get_def intrusive_ptr_raw_def set_ptr_acquire)
  have restored: "0 < strong_count h a \<Longrightarrow>
      intrusive_ptr_dtor counted \<lparr>ptr = Some a\<rparr> (add_strong_ref a h) = h"
    by (simp add: dtor_release counted_simps release_after_add)
  show ?thesis
    by (simp add: cast counted_simps add_strong_ref_count restored)
qed

theorem up_pointer_cast_acquires_witness:
  "up_pointer_cast counted \<lparr>ptr = Some 0\<rparr> (created 0) =
     (\<lparr>ptr = Some 0\<rparr>, add_strong_ref 0 (created 0)) \<and>
   strong_count (snd (up_pointer_cast counted \<lparr>ptr = Some 0\<rparr> (created 0))) =
     (strong_count (created 0))(0 := 2) \<and>
   intrusive_ptr_dtor counted (fst (up_pointer_cast counted \<lparr>ptr = Some 0\<rparr> (created 0)))
     (snd (up_pointer_cast counted \<lparr>ptr = Some 0\<rparr> (created 0))) = created 0"
  using up_pointer_cast_acquires [of "\<lparr>ptr = Some 0\<rparr>" 0 counted "created 0" "created 0"]
  by (simp add: created_def counted_defs intrusive_ptr_dtor_def)

text \<open>
  Claim C7. When the target of a strong handle is not of the requested type, the
  \<open>dynamic_cast\<close> yields a null pointer and \<open>down_pointer_cast\<close> returns a null handle: a
  value, not an error. No primitive is called, so the state of the counted objects is
  untouched; the member function is \<open>const\<close> and does not write the original handle.
\<close>

theorem down_pointer_cast_incompatible:
  assumes "ptr this = Some a" and "\<not> is_C a"
  shows "down_pointer_cast P is_C this s = (\<lparr>ptr = None\<rparr>, s)"
  using assms
  by (simp add: down_pointer_cast_def dynamic_cast_def get_def intrusive_ptr_raw_def set_ptr_def)

theorem down_pointer_cast_incompatible_witness:
  "down_pointer_cast counted (\<lambda>a. a = 1) \<lparr>ptr = Some 0\<rparr> (created 0) =
     (\<lparr>ptr = None\<rparr>, created 0)"
  using down_pointer_cast_incompatible
    [of "\<lparr>ptr = Some 0\<rparr>" 0 "\<lambda>a. a = 1" counted "created 0"]
  by simp

subsection \<open>Move construction\<close>

text \<open>
  Claim C8. The move constructor calls no primitive (it has no access to the counted
  objects): the new handle stores the pointer of the source and the source becomes null.
  Destroying the moved-from handle leaves the state untouched; destroying the new handle
  does what destroying the source would have done before the move, which for a non-null
  pointer is exactly one call of \<open>intrusive_ptr_release\<close>.
\<close>

theorem move_transfers_ownership:
  "intrusive_ptr_move other = (\<lparr>ptr = ptr other\<rparr>, \<lparr>ptr = None\<rparr>) \<and>
   intrusive_ptr_dtor P (snd (intrusive_ptr_move other)) s = s \<and>
   intrusive_ptr_dtor P (fst (intrusive_ptr_move other)) s = intrusive_ptr_dtor P other s \<and>
   (ptr other = Some a \<longrightarrow>
      intrusive_ptr_dtor P (fst (intrusive_ptr_move other)) s = intrusive_ptr_release P a s)"
proof -
  have moved: "intrusive_ptr_move other = (\<lparr>ptr = ptr other\<rparr>, \<lparr>ptr = None\<rparr>)"
    by (simp add: intrusive_ptr_move_def detach_def Let_def)
  have same: "\<lparr>ptr = ptr other\<rparr> = other"
    by (simp add: handle_eq)
  show ?thesis
    by (simp add: moved same dtor_null dtor_release)
qed

theorem move_transfers_ownership_witness:
  "intrusive_ptr_move \<lparr>ptr = Some 0\<rparr> = (\<lparr>ptr = Some 0\<rparr>, \<lparr>ptr = None\<rparr>) \<and>
   intrusive_ptr_dtor counted (snd (intrusive_ptr_move \<lparr>ptr = Some 0\<rparr>)) (created 0) = created 0 \<and>
   intrusive_ptr_dtor counted (fst (intrusive_ptr_move \<lparr>ptr = Some 0\<rparr>)) (created 0) =
     release_strong_ref 0 (created 0) \<and>
   strong_count (release_strong_ref 0 (created 0)) 0 = 0"
  using move_transfers_ownership [of "\<lparr>ptr = Some 0\<rparr>" counted "created 0" 0]
  by (simp add: strong_defs counted_defs created_def)

subsection \<open>Copy-and-swap assignment\<close>

text \<open>
  Claim C9. For every implementation of the primitives, the assignment \<open>h = s\<close> from an
  lvalue \<open>s\<close> leaves \<open>h\<close> and the counted objects exactly as \<open>h.reset(s.get(), true)\<close> does:
  the by-value parameter is copy-constructed first (acquiring the new target), swapped with
  \<open>h\<close>, and destroyed with the old pointer. \<open>s\<close> is only read, and may be \<open>h\<close> itself: on the
  counted objects of the specification, assigning a handle to itself when its target has a
  positive count goes through a state where the count is one higher and ends in the state
  it started from.
\<close>

theorem copy_assign_is_reset:
  "copy_assign P src this s = reset P (get src) True this s \<and>
   (ptr this = Some a \<and> 0 < strong_count h a \<longrightarrow>
      strong_count (snd (intrusive_ptr_copy counted this h)) a = strong_count h a + 1 \<and>
      copy_assign counted this this h = (this, h))"
proof (intro conjI impI)
  show "copy_assign P src this s = reset P (get src) True this s"
    by (simp add: copy_assign_def intrusive_ptr_copy_def operator_assign_def swap_def
        intrusive_ptr_dtor_def reset_def set_ptr_def)
next
  assume live: "ptr this = Some a \<and> 0 < strong_count h a"
  then have copy: "intrusive_ptr_copy counted this h = (\<lparr>ptr = Some a\<rparr>, add_strong_ref a h)"
    by (simp add: intrusive_ptr_copy_def get_def set_ptr_acquire counted_simps)
  show "strong_count (snd (intrusive_ptr_copy counted this h)) a = strong_count h a + 1"
    by (simp add: copy add_strong_ref_count)
  from live have "copy_assign counted this this h =
      (\<lparr>ptr = Some a\<rparr>, release_strong_ref a (add_strong_ref a h))"
    by (simp add: copy_assign_def copy operator_assign_def swap_def dtor_release counted_simps)
  with live show "copy_assign counted this this h = (this, h)"
    by (simp add: release_after_add handle_eq)
qed

theorem copy_assign_is_reset_witness:
  "0 < strong_count (created 0) 0 \<and>
   strong_count (snd (intrusive_ptr_copy counted \<lparr>ptr = Some 0\<rparr> (created 0))) 0 = 2 \<and>
   copy_assign counted \<lparr>ptr = Some 0\<rparr> \<lparr>ptr = Some 0\<rparr> (created 0) =
     (\<lparr>ptr = Some 0\<rparr>, created 0) \<and>
   reset counted (get \<lparr>ptr = Some 0\<rparr>) True \<lparr>ptr = Some 0\<rparr> (created 0) =
     (\<lparr>ptr = Some 0\<rparr>, created 0)"
  using copy_assign_is_reset
    [of counted "\<lparr>ptr = Some 0\<rparr>" "\<lparr>ptr = Some 0\<rparr>" "created 0" 0 "created 0"]
  by (simp add: strong_defs counted_defs created_def)

subsection \<open>Null handles\<close>

text \<open>
  Claim C10 says that every operation but dereference calls no primitive on a null handle.
  It does not hold for \<open>reset\<close>: a default-constructed strong handle is reset to the one
  object of \<open>created 0\<close>, with \<open>add_ref = true\<close>, and the strong count of the object goes
  from 1 to 2. \<open>reset\<close> skips the release of a null old
  pointer, not the acquisition of the new target.
\<close>

theorem reset_null_handle_counterexample:
  "ptr intrusive_ptr_default = None \<and>
   strong_count (created 0) 0 = 1 \<and>
   strong_count (snd (reset counted (Some 0) True intrusive_ptr_default (created 0))) 0 = 2"
  by (simp add: strong_defs counted_defs created_def intrusive_ptr_default_def)

text \<open>
  Claim C10, amended. For a strong handle \<open>this\<close> and a weak handle \<open>w\<close> whose stored
  pointers are null, and every implementation of the primitives: destroying, copying,
  detaching, moving from, boolean-testing and comparing the handle, and \<open>lock()\<close> and
  \<open>get_locked()\<close> on the weak one, call no primitive and leave the state of the counted
  objects untouched. Resetting a null handle releases nothing: it does exactly what
  \<open>set_ptr\<close> does for the new target, which is nothing when the new pointer is null or
  \<open>add_ref\<close> is false. In particular, destroying a default-constructed or a moved-from
  handle changes nothing. Every operation of the model is a total function: the pointer is
  read with \<open>the\<close> only under the test that it is not null.
\<close>

theorem null_handle_operations:
  assumes "ptr this = None" and "wptr w = None"
  shows
   "intrusive_ptr_dtor P this s = s \<and>
    intrusive_ptr_copy P this s = (\<lparr>ptr = None\<rparr>, s) \<and>
    detach this = (None, this) \<and>
    intrusive_ptr_move this = (\<lparr>ptr = None\<rparr>, this) \<and>
    reset P new_value add_ref this s = set_ptr P new_value add_ref s \<and>
    reset P None add_ref this s = (this, s) \<and>
    reset P new_value False this s = (\<lparr>ptr = new_value\<rparr>, s) \<and>
    \<not> operator_bool this \<and> eq_nullptr this \<and> \<not> ne_nullptr this \<and>
    eq_ptr this b = (ptr b = None) \<and> ne_ptr this b = (ptr b \<noteq> None) \<and>
    eq_raw this p = (p = None) \<and> ne_raw this p = (p \<noteq> None) \<and>
    weak_intrusive_ptr_dtor P w s = s \<and>
    weak_intrusive_ptr_copy P w s = (\<lparr>wptr = None\<rparr>, s) \<and>
    weak_detach w = (None, w) \<and>
    weak_intrusive_ptr_move w = (\<lparr>wptr = None\<rparr>, w) \<and>
    weak_reset P new_value add_ref w s = weak_set_ptr P new_value add_ref s \<and>
    weak_reset P None add_ref w s = (w, s) \<and>
    weak_reset P new_value False w s = (\<lparr>wptr = new_value\<rparr>, s) \<and>
    \<not> weak_operator_bool w \<and> weak_operator_not w \<and>
    weak_eq w v = (wptr v = None) \<and> weak_ne w v = (wptr v \<noteq> None) \<and>
    lock P w s = (\<lparr>ptr = None\<rparr>, s) \<and>
    get_locked P w s = (None, s) \<and>
    intrusive_ptr_dtor P intrusive_ptr_default s = s \<and>
    intrusive_ptr_dtor P (snd (intrusive_ptr_move other)) s = s \<and>
    weak_intrusive_ptr_dtor P weak_intrusive_ptr_default s = s \<and>
    weak_intrusive_ptr_dtor P (snd (weak_intrusive_ptr_move wother)) s = s"
  using assms
  by (simp add: strong_defs weak_defs intrusive_ptr_default_def weak_intrusive_ptr_default_def
      Let_def eq_commute [of None])

theorem null_handle_operations_witness:
  "intrusive_ptr_dtor counted intrusive_ptr_default (created 0) = created 0 \<and>
   intrusive_ptr_copy counted intrusive_ptr_default (created 0) = (\<lparr>ptr = None\<rparr>, created 0) \<and>
   detach intrusive_ptr_default = (None, intrusive_ptr_default) \<and>
   reset counted None True intrusive_ptr_default (created 0) = (intrusive_ptr_default, created 0) \<and>
   reset counted (Some 0) True intrusive_ptr_default (created 0) =
     set_ptr counted (Some 0) True (created 0) \<and>
   weak_intrusive_ptr_dtor counted weak_intrusive_ptr_default (created 0) = created 0 \<and>
   weak_intrusive_ptr_copy counted weak_intrusive_ptr_default (created 0) =
     (\<lparr>wptr = None\<rparr>, created 0) \<and>
   weak_reset counted None True weak_intrusive_ptr_default (created 0) =
     (weak_intrusive_ptr_default, created 0) \<and>
   lock counted weak_intrusive_ptr_default (created 0) = (\<lparr>ptr = None\<rparr>, created 0)"
proof -
  have pre: "ptr intrusive_ptr_default = None" "wptr weak_intrusive_ptr_default = None"
    by (simp_all add: intrusive_ptr_default_def weak_intrusive_ptr_default_def)
  show ?thesis
    using null_handle_operations [OF pre, of counted "created 0" "Some 0" True]
      null_handle_operations [OF pre, of counted "created 0" None True]
    by (simp add: intrusive_ptr_default_def weak_intrusive_ptr_default_def)
qed

end
